theory Spec2Isabelle
  imports Main "HOL-Library.Word"
begin

section \<open>JavaScript values\<close>

text \<open>
  The values that cross the network boundary are JSON values. Strings are sequences of
  code units below 256 (\<open>char\<close>), and an object is the list of its own properties in
  insertion order; a JavaScript object has every key once, and of a list that repeats a
  key the first entry is the property. Numbers are the values of GraphQL's \<open>Int\<close>, the
  signed 32-bit integers (read with \<open>sint\<close>): that is the type the schema gives every
  number this query selects (\<open>totalItems\<close>, \<open>amount\<close>, \<open>quantity\<close>), JavaScript holds each of
  them exactly, and the code does no arithmetic on them. \<open>Undefined\<close> is JavaScript's \<open>undefined\<close>, which is not a
  JSON value: it is what \<open>useState()\<close> starts with and what reading a missing property
  gives.
\<close>

datatype json =
    JNull
  | JBool bool
  | JNum "32 word"
  | JStr string
  | JArr "json list"
  | JObj "(string \<times> json) list"

datatype jsval = Undefined | Json json

text \<open>
  Property read \<open>v.k\<close> on a value that is neither \<open>null\<close> nor \<open>undefined\<close>. An object
  gives its own property or \<open>undefined\<close>; the names read by this program (\<open>data\<close>,
  \<open>cart\<close>, \<open>totalItems\<close>) are defined on no prototype, so every other value gives
  \<open>undefined\<close>.
\<close>

fun get_prop :: "json \<Rightarrow> string \<Rightarrow> jsval" where
  "get_prop (JObj kvs) k = (case map_of kvs k of None \<Rightarrow> Undefined | Some v \<Rightarrow> Json v)"
| "get_prop _ k = Undefined"

section \<open>JSON.stringify\<close>

definition hexdigit :: "nat \<Rightarrow> char" where
  "hexdigit n = ''0123456789abcdef'' ! n"

text \<open>
  QuoteJSONString of ECMA-262: the seven characters with a short escape, the other
  control characters as \<open>\u00XX\<close> in lower-case hexadecimal, everything else as it is.
\<close>

definition escape_char :: "char \<Rightarrow> string" where
  "escape_char c =
     (if c = CHR 0x08 then [CHR 0x5C, CHR ''b'']
      else if c = CHR 0x09 then [CHR 0x5C, CHR ''t'']
      else if c = CHR 0x0A then [CHR 0x5C, CHR ''n'']
      else if c = CHR 0x0C then [CHR 0x5C, CHR ''f'']
      else if c = CHR 0x0D then [CHR 0x5C, CHR ''r'']
      else if c = CHR 0x22 then [CHR 0x5C, CHR 0x22]
      else if c = CHR 0x5C then [CHR 0x5C, CHR 0x5C]
      else if (of_char c :: nat) < 0x20
        then [CHR 0x5C, CHR ''u'', CHR ''0'', CHR ''0'',
              hexdigit (of_char c div 16), hexdigit (of_char c mod 16)]
      else [c])"

definition QuoteJSONString :: "string \<Rightarrow> string" where
  "QuoteJSONString s = CHR 0x22 # concat (map escape_char s) @ [CHR 0x22]"

text \<open>
  \<open>Number::toString\<close> on a signed 32-bit integer: its decimal digits, after a minus sign
  when it is negative. (JavaScript changes to the exponent form only from \<open>10^21\<close>.)
\<close>

definition digit :: "nat \<Rightarrow> char" where
  "digit n = ''0123456789'' ! n"

fun show_nat :: "nat \<Rightarrow> string" where
  "show_nat n = (if n < 10 then [digit n] else show_nat (n div 10) @ [digit (n mod 10)])"

declare show_nat.simps [simp del]

definition Number_toString :: "32 word \<Rightarrow> string" where
  "Number_toString n =
     (if sint n < 0 then CHR ''-'' # show_nat (nat (- sint n)) else show_nat (nat (sint n)))"

fun join :: "string \<Rightarrow> string list \<Rightarrow> string" where
  "join sep [] = []"
| "join sep [x] = x"
| "join sep (x # y # ys) = x @ sep @ join sep (y # ys)"

fun JSON_stringify :: "json \<Rightarrow> string" where
  "JSON_stringify JNull = ''null''"
| "JSON_stringify (JBool b) = (if b then ''true'' else ''false'')"
| "JSON_stringify (JNum n) = Number_toString n"
| "JSON_stringify (JStr s) = QuoteJSONString s"
| "JSON_stringify (JArr xs) = ''['' @ join '','' (map JSON_stringify xs) @ '']''"
| "JSON_stringify (JObj kvs) =
     ''{'' @ join '','' (map (\<lambda>(k, v). QuoteJSONString k @ '':'' @ JSON_stringify v) kvs) @ ''}''"

section \<open>src/GetCartById.ts\<close>

text \<open>
  \<open>gql\<close> is \<open>String\<close>, and the template has no substitution (\<open>$id\<close> is GraphQL's
  variable, not \<open>${id}\<close>), so the tagged template is its own text: it starts with the line
  break after the back quote and ends with the one before the closing back quote.
\<close>

definition getCartById :: string where
  "getCartById =
     ''\<newline>'' @
     ''  query GetCartById($id: ID!) {\<newline>'' @
     ''    cart(id: $id) {\<newline>'' @
     ''      totalItems\<newline>'' @
     ''      subTotal {\<newline>'' @
     ''        amount\<newline>'' @
     ''        formatted\<newline>'' @
     ''      }\<newline>'' @
     ''      items {\<newline>'' @
     ''        id\<newline>'' @
     ''        name\<newline>'' @
     ''        quantity\<newline>'' @
     ''        unitTotal {\<newline>'' @
     ''          formatted\<newline>'' @
     ''        }\<newline>'' @
     ''      }\<newline>'' @
     ''    }\<newline>'' @
     ''  }\<newline>''"

section \<open>The hook's environment: React state, effects and fetch\<close>

record request =
  url :: string
  http_method :: string
  headers :: "(string \<times> string) list"
  body :: string

text \<open>
  A response as the handlers see it: the status, which they never read, and what
  \<open>res.json()\<close> resolves to; \<open>None\<close> is a body that is not JSON, on which \<open>res.json()\<close>
  rejects. \<open>fetch\<close> rejects only when there is no response at all (\<open>NetworkError\<close>); a
  response with any status resolves it.
\<close>

record response =
  status :: nat
  json_body :: "json option"

datatype outcome = NetworkError | Responded response

datatype rejection = FetchRejected | JsonSyntaxError | TypeError

text \<open>
  The entries of the effect's dependency array \<open>[body, setCart]\<close>: a string, compared by
  value, and the setter of \<open>useState\<close>, which React keeps identical across renders.
\<close>

datatype dep = DepString string | DepSetCart

text \<open>
  One mounted instance of the hook and what it has done to the outside: the \<open>useState\<close>
  slot, the dependency array remembered by \<open>useEffect\<close> (\<open>None\<close> before the first
  render), the identifier of the latest render, the value that render returned to its
  caller, every request passed to \<open>fetch\<close> in order, the requests not yet settled (by
  position in \<open>outbox\<close>), and the rejections no handler caught.
\<close>

record hook =
  cart :: jsval
  effect_deps :: "dep list option"
  props_id :: string
  returned :: jsval
  outbox :: "request list"
  pending :: "nat list"
  unhandled :: "rejection list"

definition init :: hook where
  "init = \<lparr>cart = Undefined, effect_deps = None, props_id = [], returned = Undefined,
            outbox = [], pending = [], unhandled = []\<rparr>"

definition fetch :: "request \<Rightarrow> hook \<Rightarrow> hook" where
  "fetch r w = w\<lparr>outbox := outbox w @ [r], pending := pending w @ [length (outbox w)]\<rparr>"

text \<open>
  \<open>useEffect(effect, deps)\<close>: the effect runs after the first render and after every
  render whose dependency array differs from the one of the render before, entry by
  entry under \<open>Object.is\<close>. (The second run of every effect that React's strict mode adds
  in development builds is not part of the model.)
\<close>

definition useEffect :: "(hook \<Rightarrow> hook) \<Rightarrow> dep list \<Rightarrow> hook \<Rightarrow> hook" where
  "useEffect effect ds w =
     (if effect_deps w = Some ds then w else effect (w\<lparr>effect_deps := Some ds\<rparr>))"

section \<open>src/useCart.ts\<close>

definition useCart :: "string \<Rightarrow> hook \<Rightarrow> jsval \<times> hook" where
  "useCart ident w =
     (let query = getCartById;
          variables = JObj [(''id'', JStr ident)];
          body = JSON_stringify (JObj [(''query'', JStr query), (''variables'', variables)]);
          w' = useEffect
                 (fetch \<lparr>url = ''https://api.cartql.com'', http_method = ''POST'',
                         headers = [(''Content-Type'', ''application/json'')], body = body\<rparr>)
                 [DepString body, DepSetCart] w
      in (cart w, w'))"

text \<open>A render of the component that owns the hook, called with \<open>ident\<close>.\<close>

definition render :: "string \<Rightarrow> hook \<Rightarrow> hook" where
  "render ident w = (case useCart ident w of (v, w') \<Rightarrow> w'\<lparr>props_id := ident, returned := v\<rparr>)"

text \<open>\<open>.then((res) => res.json())\<close>\<close>

definition then_json :: "response \<Rightarrow> rejection + json" where
  "then_json res = (case json_body res of None \<Rightarrow> Inl JsonSyntaxError | Some j \<Rightarrow> Inr j)"

text \<open>
  \<open>.then(({ data }) => { setCart(data.cart); })\<close>: the value passed to \<open>setCart\<close>, or the
  TypeError of destructuring \<open>null\<close> or of reading \<open>cart\<close> of \<open>undefined\<close> or \<open>null\<close>.
\<close>

definition then_setCart :: "json \<Rightarrow> rejection + jsval" where
  "then_setCart j =
     (if j = JNull then Inl TypeError
      else case get_prop j ''data'' of
             Undefined \<Rightarrow> Inl TypeError
           | Json JNull \<Rightarrow> Inl TypeError
           | Json d \<Rightarrow> Inr (get_prop d ''cart''))"

text \<open>
  \<open>Object.is\<close> between a new state and the stored one. Objects and arrays are compared
  by identity, and a value just parsed from a response is identical to nothing stored.
\<close>

fun Object_is :: "jsval \<Rightarrow> jsval \<Rightarrow> bool" where
  "Object_is Undefined Undefined = True"
| "Object_is (Json JNull) (Json JNull) = True"
| "Object_is (Json (JBool a)) (Json (JBool b)) = (a = b)"
| "Object_is (Json (JNum a)) (Json (JNum b)) = (a = b)"
| "Object_is (Json (JStr a)) (Json (JStr b)) = (a = b)"
| "Object_is _ _ = False"

text \<open>
  The setter of \<open>useState\<close>: an identical value changes nothing; any other value is
  stored and the component renders again, with the identifier it was last given.
\<close>

definition setCart :: "jsval \<Rightarrow> hook \<Rightarrow> hook" where
  "setCart v w = (if Object_is v (cart w) then w else render (props_id w) (w\<lparr>cart := v\<rparr>))"

definition reject :: "rejection \<Rightarrow> hook \<Rightarrow> hook" where
  "reject e w = w\<lparr>unhandled := unhandled w @ [e]\<rparr>"

text \<open>
  The promise chain of the effect,
  \<open>fetch(...).then((res) => res.json()).then(({ data }) => { setCart(data.cart); })\<close>,
  once its \<open>fetch\<close> has settled: a rejection skips the handlers after it, and the chain
  ends in the first rejection or in the value that reaches \<open>setCart\<close>.
\<close>

definition promise_chain :: "outcome \<Rightarrow> rejection + jsval" where
  "promise_chain out =
     (case out of
        NetworkError \<Rightarrow> Inl FetchRejected
      | Responded res \<Rightarrow>
          (case then_json res of
             Inl e \<Rightarrow> Inl e
           | Inr j \<Rightarrow> then_setCart j))"

text \<open>The chain has no \<open>catch\<close>: a rejection changes nothing and is reported nowhere.\<close>

definition settle :: "outcome \<Rightarrow> hook \<Rightarrow> hook" where
  "settle out w = (case promise_chain out of Inl e \<Rightarrow> reject e w | Inr v \<Rightarrow> setCart v w)"

text \<open>
  What happens to an instance: its owner renders it with an identifier, or one of its
  requests in flight settles. A request settles once.
\<close>

datatype event = Render string | Settle nat outcome

fun step :: "hook \<Rightarrow> event \<Rightarrow> hook" where
  "step w (Render ident) = render ident w"
| "step w (Settle k out) =
     (if k \<in> set (pending w) then settle out (w\<lparr>pending := removeAll k (pending w)\<rparr>) else w)"

definition run :: "event list \<Rightarrow> hook" where
  "run evs = foldl step init evs"

text \<open>The identifiers the hook was called with, in order.\<close>

fun rendered :: "event list \<Rightarrow> string list" where
  "rendered [] = []"
| "rendered (Render ident # evs) = ident # rendered evs"
| "rendered (Settle k out # evs) = rendered evs"

section \<open>pages/index.tsx\<close>






section \<open>The shapes the specification names\<close>

text \<open>
  The outbound request in the specification's words, to compare with what \<open>useCart\<close>
  sends: a POST to the fixed endpoint, the header \<open>Content-Type: application/json\<close>,
  and as body the JSON text of the object
  \<open>{ query: <operation text>, variables: { id: <string> } }\<close>.
\<close>

definition spec_request :: "string \<Rightarrow> request" where
  "spec_request ident =
     \<lparr>url = ''https://api.cartql.com'', http_method = ''POST'',
      headers = [(''Content-Type'', ''application/json'')],
      body = JSON_stringify
               (JObj [(''query'', JStr getCartById), (''variables'', JObj [(''id'', JStr ident)])])\<rparr>"

text \<open>
  Modelled from the spec: the shape of a cart. The code names it only as the type
  \<open>GetCartByIdQuery["cart"]\<close> of the generated \<open>src/types.ts\<close>, which is not among the
  sources. In the specification's data model a line item has an identifier, a name, an
  integer quantity and a unit total with its formatted string; a cart has an
  identifier, an integer total item count, a subtotal with an integer amount and a
  formatted string, and a sequence of line items.
\<close>

definition is_string :: "jsval \<Rightarrow> bool" where
  "is_string v = (case v of Json (JStr s) \<Rightarrow> True | _ \<Rightarrow> False)"

definition is_integer :: "jsval \<Rightarrow> bool" where
  "is_integer v = (case v of Json (JNum n) \<Rightarrow> True | _ \<Rightarrow> False)"

definition line_item_shape :: "json \<Rightarrow> bool" where
  "line_item_shape j =
     (is_string (get_prop j ''id'') \<and> is_string (get_prop j ''name'') \<and>
      is_integer (get_prop j ''quantity'') \<and>
      (case get_prop j ''unitTotal'' of
         Json u \<Rightarrow> is_string (get_prop u ''formatted'')
       | Undefined \<Rightarrow> False))"

definition cart_shape :: "json \<Rightarrow> bool" where
  "cart_shape j =
     (is_string (get_prop j ''id'') \<and> is_integer (get_prop j ''totalItems'') \<and>
      (case get_prop j ''subTotal'' of
         Json t \<Rightarrow> is_integer (get_prop t ''amount'') \<and> is_string (get_prop t ''formatted'')
       | Undefined \<Rightarrow> False) \<and>
      (case get_prop j ''items'' of
         Json (JArr xs) \<Rightarrow> list_all line_item_shape xs
       | _ \<Rightarrow> False))"

text \<open>The two responses of the repository's tests, as the interception layer sends them.\<close>

definition mock_totalItems :: response where
  "mock_totalItems =
     \<lparr>status = 200,
      json_body = Some (JObj [(''data'', JObj [(''cart'', JObj [(''totalItems'', JNum 10)])])])\<rparr>"


section \<open>What every reachable state satisfies\<close>

text \<open>
  After the hook has been called with the identifiers \<open>ids\<close>, in any interleaving with
  settling requests: the effect remembers the body of the last identifier, one request
  has gone out for every run of equal identifiers, the caller holds the stored cart, and
  every request in flight is one that was sent.
\<close>

definition hook_inv :: "string list \<Rightarrow> hook \<Rightarrow> bool" where
  "hook_inv ids w \<longleftrightarrow>
     effect_deps w =
       (if ids = [] then None
        else Some [DepString (body (spec_request (last ids))), DepSetCart]) \<and>
     (ids \<noteq> [] \<longrightarrow> props_id w = last ids) \<and>
     outbox w = map spec_request (remdups_adj ids) \<and>
     returned w = cart w \<and>
     (\<forall>k \<in> set (pending w). k < length (outbox w))"

section \<open>Serialisation is injective on identifiers\<close>

lemma hexdigit_code:
  "n < 16 \<Longrightarrow> of_char (hexdigit n) = (if n < 10 then 48 + n else 87 + n)"
proof -
  assume "n < 16"
  then have "n \<in> {0,1,2,3,4,5,6,7,8,9,10,11,12,13,14,15}" by (simp; arith)
  then show ?thesis unfolding hexdigit_def by (elim insertE emptyE) simp_all
qed

lemma hexdigit_inj:
  assumes "m < 16" "n < 16" "hexdigit m = hexdigit n"
  shows "m = n"
proof -
  have "(of_char (hexdigit m) :: nat) = of_char (hexdigit n)" using assms(3) by simp
  then show ?thesis using assms(1,2) by (simp add: hexdigit_code split: if_splits)
qed

lemma control_inj:
  assumes "(of_char a :: nat) < 32" "(of_char b :: nat) < 32"
    and "hexdigit (of_char a div 16) = hexdigit (of_char b div 16)"
    and "hexdigit (of_char a mod 16) = hexdigit (of_char b mod 16)"
  shows "a = b"
proof -
  have d: "(of_char a :: nat) div 16 = of_char b div 16"
    using assms(1,2,3) by (intro hexdigit_inj) simp_all
  have m: "(of_char a :: nat) mod 16 = of_char b mod 16"
    using assms(4) by (intro hexdigit_inj) simp_all
  have "(of_char a :: nat) = of_char b"
    using d m by (metis div_mult_mod_eq)
  then show ?thesis by simp
qed

lemma escape_char_cancel:
  "escape_char a @ r = escape_char b @ r' \<Longrightarrow> a = b \<and> r = r'"
  unfolding escape_char_def
  by (auto split: if_splits dest: control_inj)

lemma escape_char_nonempty: "escape_char c \<noteq> []"
  by (simp add: escape_char_def)

lemma concat_escape_inj:
  "concat (map escape_char s) = concat (map escape_char t) \<Longrightarrow> s = t"
proof (induction s arbitrary: t)
  case Nil
  then show ?case by (cases t) (simp_all add: escape_char_nonempty)
next
  case (Cons a s)
  show ?case
  proof (cases t)
    case Nil
    with Cons.prems show ?thesis by (simp add: escape_char_nonempty)
  next
    case (Cons b t')
    with Cons.prems have "escape_char a @ concat (map escape_char s)
        = escape_char b @ concat (map escape_char t')" by simp
    then have "a = b" and "concat (map escape_char s) = concat (map escape_char t')"
      using escape_char_cancel by blast+
    with Cons.IH Cons show ?thesis by simp
  qed
qed

lemma QuoteJSONString_inj: "QuoteJSONString s = QuoteJSONString t \<Longrightarrow> s = t"
  by (simp add: QuoteJSONString_def concat_escape_inj)

lemma body_spec_request:
  "body (spec_request ident) =
     CHR ''{'' # QuoteJSONString ''query'' @ '':'' @ QuoteJSONString getCartById @ '','' @
     QuoteJSONString ''variables'' @ '':'' @ ''{'' @ QuoteJSONString ''id'' @ '':'' @
     QuoteJSONString ident @ ''}'' @ ''}''"
  by (simp add: spec_request_def)

lemma body_spec_request_eq_iff [simp]:
  "body (spec_request a) = body (spec_request b) \<longleftrightarrow> a = b"
  by (auto simp: body_spec_request dest: QuoteJSONString_inj)

lemma spec_request_eq_iff [simp]: "spec_request a = spec_request b \<longleftrightarrow> a = b"
  by (metis body_spec_request_eq_iff)

lemma useCart_eq:
  "useCart ident w =
     (cart w, useEffect (fetch (spec_request ident)) [DepString (body (spec_request ident)), DepSetCart] w)"
  by (simp add: useCart_def spec_request_def Let_def)

lemma render_eq:
  "render ident w =
     (if effect_deps w = Some [DepString (body (spec_request ident)), DepSetCart]
      then w\<lparr>props_id := ident, returned := cart w\<rparr>
      else w\<lparr>effect_deps := Some [DepString (body (spec_request ident)), DepSetCart],
             outbox := outbox w @ [spec_request ident],
             pending := pending w @ [length (outbox w)],
             props_id := ident, returned := cart w\<rparr>)"
  by (simp add: render_def useCart_eq useEffect_def fetch_def)


lemma remdups_adj_snoc:
  "remdups_adj (xs @ [x]) =
     (if xs \<noteq> [] \<and> last xs = x then remdups_adj xs else remdups_adj xs @ [x])"
proof (cases xs rule: rev_cases)
  case Nil
  then show ?thesis by simp
next
  case (snoc ys y)
  then show ?thesis by (simp add: remdups_adj_append_two)
qed

lemma rendered_append: "rendered (xs @ ys) = rendered xs @ rendered ys"
  by (induction xs rule: rendered.induct) simp_all

lemma run_snoc: "run (evs @ [e]) = step (run evs) e"
  by (simp add: run_def)

lemma run_Nil: "run [] = init"
  by (simp add: run_def)

lemma hook_inv_init: "hook_inv [] init"
  by (simp add: hook_inv_def init_def)

lemma hook_inv_render:
  assumes "hook_inv ids w"
  shows "hook_inv (ids @ [ident]) (render ident w)"
  using assms
  by (auto simp: hook_inv_def render_eq remdups_adj_snoc less_Suc_eq)

lemma Object_is_eq: "Object_is v c \<Longrightarrow> v = c"
  by (induction v c rule: Object_is.induct) simp_all

lemma setCart_eq:
  assumes "hook_inv ids w" "ids \<noteq> []"
  shows "setCart v w = w\<lparr>cart := v, returned := v\<rparr>"
proof (cases "Object_is v (cart w)")
  case True
  then have "v = cart w" by (rule Object_is_eq)
  with True assms show ?thesis by (simp add: setCart_def hook_inv_def)
next
  case False
  with assms show ?thesis by (simp add: setCart_def hook_inv_def render_eq)
qed

lemma hook_inv_nonempty:
  assumes "hook_inv ids w" "k \<in> set (pending w)"
  shows "ids \<noteq> []"
  using assms by (auto simp: hook_inv_def)

lemma step_Settle_eq:
  assumes "hook_inv ids w" "k \<in> set (pending w)"
  shows "step w (Settle k out) =
     (case promise_chain out of
        Inl e \<Rightarrow> w\<lparr>pending := removeAll k (pending w), unhandled := unhandled w @ [e]\<rparr>
      | Inr v \<Rightarrow> w\<lparr>pending := removeAll k (pending w), cart := v, returned := v\<rparr>)"
proof -
  let ?w = "w\<lparr>pending := removeAll k (pending w)\<rparr>"
  have ne: "ids \<noteq> []" using assms by (rule hook_inv_nonempty)
  have inv: "hook_inv ids ?w" using assms(1) by (auto simp: hook_inv_def)
  show ?thesis
    using assms(2) setCart_eq [OF inv ne]
    by (simp add: settle_def reject_def split: sum.splits)
qed

lemma hook_inv_step_Settle:
  assumes "hook_inv ids w"
  shows "hook_inv ids (step w (Settle k out))"
proof (cases "k \<in> set (pending w)")
  case True
  show ?thesis
    using assms unfolding step_Settle_eq [OF assms True]
    by (auto simp: hook_inv_def split: sum.splits)
next
  case False
  with assms show ?thesis by simp
qed

lemma hook_inv_run: "hook_inv (rendered evs) (run evs)"
proof (induction evs rule: rev_induct)
  case Nil
  show ?case by (simp add: run_Nil hook_inv_init)
next
  case (snoc e evs)
  show ?case
  proof (cases e)
    case (Render ident)
    with snoc show ?thesis
      by (simp add: run_snoc rendered_append hook_inv_render)
  next
    case (Settle k out)
    with snoc show ?thesis
      by (simp add: run_snoc rendered_append hook_inv_step_Settle del: step.simps)
  qed
qed

section \<open>Traces\<close>

lemmas trace_simps =
  run_def init_def render_eq settle_def promise_chain_def then_json_def then_setCart_def
  setCart_def reject_def

lemma outbox_run: "outbox (run evs) = map spec_request (remdups_adj (rendered evs))"
  using hook_inv_run [of evs] by (simp add: hook_inv_def)

lemma returned_run: "returned (run evs) = cart (run evs)"
  using hook_inv_run [of evs] by (simp add: hook_inv_def)

lemma run_Settle_eq:
  assumes "k \<in> set (pending (run evs))"
  shows "run (evs @ [Settle k out]) =
     (case promise_chain out of
        Inl e \<Rightarrow> (run evs)\<lparr>pending := removeAll k (pending (run evs)),
                             unhandled := unhandled (run evs) @ [e]\<rparr>
      | Inr v \<Rightarrow> (run evs)\<lparr>pending := removeAll k (pending (run evs)),
                             cart := v, returned := v\<rparr>)"
  unfolding run_snoc by (rule step_Settle_eq [OF hook_inv_run assms])

lemma returned_run_Settle:
  assumes "k \<in> set (pending (run evs))" "promise_chain out = Inr v"
  shows "returned (run (evs @ [Settle k out])) = v"
  by (simp add: run_Settle_eq [OF assms(1)] assms(2))

lemma step_Settle_rejected:
  assumes "promise_chain out = Inl e"
  shows "cart (step w (Settle k out)) = cart w"
    and "returned (step w (Settle k out)) = returned w"
    and "outbox (step w (Settle k out)) = outbox w"
    and "k \<in> set (pending w) \<Longrightarrow> unhandled (step w (Settle k out)) = unhandled w @ [e]"
  using assms by (simp_all add: settle_def reject_def)

lemma step_Render_fields:
  "cart (step w (Render ident)) = cart w"
  "returned (step w (Render ident)) = cart w"
  "set (pending w) \<subseteq> set (pending (step w (Render ident)))"
  by (auto simp: render_eq)

lemma promise_chain_data:
  assumes "json_body res = Some j" "get_prop j ''data'' = Json d" "d \<noteq> JNull"
  shows "promise_chain (Responded res) = Inr (get_prop d ''cart'')"
proof -
  have "j \<noteq> JNull" using assms(2) by auto
  then show ?thesis
    using assms by (simp add: promise_chain_def then_json_def then_setCart_def split: json.splits)
qed

lemma promise_chain_no_data:
  assumes "json_body res = Some j" "get_prop j ''data'' = Undefined"
  shows "promise_chain (Responded res) = Inl TypeError"
  using assms by (simp add: promise_chain_def then_json_def then_setCart_def)

lemma promise_chain_null_data:
  assumes "json_body res = Some j" "get_prop j ''data'' = Json JNull"
  shows "promise_chain (Responded res) = Inl TypeError"
  using assms by (simp add: promise_chain_def then_json_def then_setCart_def)

lemma returned_run_Settle_rejected:
  assumes "promise_chain out = Inl e"
  shows "returned (run (evs @ [Settle k out])) = returned (run evs)"
  using assms by (simp add: run_snoc step_Settle_rejected del: step.simps)

lemma cart_run_unset:
  assumes "\<forall>k out. Settle k out \<in> set evs \<longrightarrow> isl (promise_chain out)"
  shows "cart (run evs) = Undefined"
  using assms
proof (induction evs rule: rev_induct)
  case Nil
  show ?case by (simp add: run_Nil init_def)
next
  case (snoc e evs)
  then have IH: "cart (run evs) = Undefined" by simp
  show ?case
  proof (cases e)
    case (Render ident)
    with IH show ?thesis by (simp add: run_snoc step_Render_fields del: step.simps)
  next
    case (Settle k out)
    with snoc.prems have "isl (promise_chain out)" by simp
    then obtain err where "promise_chain out = Inl err" by (cases "promise_chain out") simp_all
    with IH Settle show ?thesis by (simp add: run_snoc step_Settle_rejected del: step.simps)
  qed
qed

lemma cart_run_origin:
  "cart (run evs) = Undefined \<or>
   (\<exists>k out. Settle k out \<in> set evs \<and> promise_chain out = Inr (cart (run evs)))"
proof (induction evs rule: rev_induct)
  case Nil
  show ?case by (simp add: run_Nil init_def)
next
  case (snoc e evs)
  show ?case
  proof (cases e)
    case (Render ident)
    with snoc show ?thesis by (auto simp: run_snoc step_Render_fields simp del: step.simps)
  next
    case (Settle k out)
    show ?thesis
    proof (cases "k \<in> set (pending (run evs))")
      case True
      show ?thesis
      proof (cases "promise_chain out")
        case (Inl err)
        with snoc Settle show ?thesis
          by (auto simp: run_snoc step_Settle_rejected simp del: step.simps)
      next
        case (Inr v)
        then have "cart (run (evs @ [e])) = v"
          using Settle by (simp add: run_Settle_eq [OF True])
        with Inr Settle show ?thesis by auto
      qed
    next
      case False
      with snoc Settle show ?thesis by (auto simp: run_snoc)
    qed
  qed
qed

lemma returned_run_quiet:
  assumes "\<forall>k out. Settle k out \<in> set evs' \<longrightarrow> isl (promise_chain out)"
  shows "returned (run (evs @ evs')) = returned (run evs)"
  using assms
proof (induction evs' rule: rev_induct)
  case Nil
  show ?case by simp
next
  case (snoc e evs')
  then have IH: "returned (run (evs @ evs')) = returned (run evs)" by simp
  have r: "run (evs @ evs' @ [e]) = step (run (evs @ evs')) e"
    using run_snoc [of "evs @ evs'" e] by simp
  have "returned (step (run (evs @ evs')) e) = returned (run (evs @ evs'))"
  proof (cases e)
    case (Render ident)
    then show ?thesis
      using returned_run [of "evs @ evs'"] step_Render_fields(2) [of "run (evs @ evs')" ident]
      by simp
  next
    case (Settle k out)
    with snoc.prems have "isl (promise_chain out)" by simp
    then obtain err where "promise_chain out = Inl err" by (cases "promise_chain out") simp_all
    with Settle show ?thesis by (simp add: step_Settle_rejected del: step.simps)
  qed
  with IH r show ?case by simp
qed

lemma rendered_Settle_mid: "rendered (evs @ Settle k out # evs') = rendered (evs @ evs')"
  by (simp add: rendered_append)

lemma outbox_run_Settle_mid: "outbox (run (evs @ Settle k out # evs')) = outbox (run (evs @ evs'))"
  by (simp add: outbox_run rendered_Settle_mid)

lemma unhandled_render: "unhandled (render ident w) = unhandled w"
  by (simp add: render_eq)

lemma unhandled_step: "\<exists>ys. unhandled (step w e) = unhandled w @ ys"
proof (cases e)
  case (Render ident)
  then show ?thesis by (simp add: unhandled_render)
next
  case (Settle k out)
  then show ?thesis
    by (cases "promise_chain out")
       (simp_all add: settle_def reject_def setCart_def unhandled_render)
qed

lemma unhandled_run_append: "\<exists>ys. unhandled (run (evs @ evs')) = unhandled (run evs) @ ys"
proof (induction evs' rule: rev_induct)
  case Nil
  show ?case by simp
next
  case (snoc e evs')
  then obtain ys where ys: "unhandled (run (evs @ evs')) = unhandled (run evs) @ ys" by blast
  obtain zs where "unhandled (step (run (evs @ evs')) e) = unhandled (run (evs @ evs')) @ zs"
    using unhandled_step by blast
  with ys have "unhandled (run (evs @ evs' @ [e])) = unhandled (run evs) @ (ys @ zs)"
    using run_snoc [of "evs @ evs'" e] by simp
  then show ?case by blast
qed



section \<open>The text that goes out\<close>

lemma quoted_getCartById:
  \<open>QuoteJSONString getCartById =
     ''"'' @ [CHR 0x5C, CHR ''n''] @
     ''  query GetCartById($id: ID!) {'' @ [CHR 0x5C, CHR ''n''] @
     ''    cart(id: $id) {'' @ [CHR 0x5C, CHR ''n''] @
     ''      totalItems'' @ [CHR 0x5C, CHR ''n''] @
     ''      subTotal {'' @ [CHR 0x5C, CHR ''n''] @
     ''        amount'' @ [CHR 0x5C, CHR ''n''] @
     ''        formatted'' @ [CHR 0x5C, CHR ''n''] @
     ''      }'' @ [CHR 0x5C, CHR ''n''] @
     ''      items {'' @ [CHR 0x5C, CHR ''n''] @
     ''        id'' @ [CHR 0x5C, CHR ''n''] @
     ''        name'' @ [CHR 0x5C, CHR ''n''] @
     ''        quantity'' @ [CHR 0x5C, CHR ''n''] @
     ''        unitTotal {'' @ [CHR 0x5C, CHR ''n''] @
     ''          formatted'' @ [CHR 0x5C, CHR ''n''] @
     ''        }'' @ [CHR 0x5C, CHR ''n''] @
     ''      }'' @ [CHR 0x5C, CHR ''n''] @
     ''    }'' @ [CHR 0x5C, CHR ''n''] @
     ''  }'' @ [CHR 0x5C, CHR ''n''] @ ''"''\<close>
  by (simp add: QuoteJSONString_def getCartById_def escape_char_def)

lemma quoted_plain:
  \<open>QuoteJSONString ''query'' = ''"query"''\<close>
  \<open>QuoteJSONString ''variables'' = ''"variables"''\<close>
  \<open>QuoteJSONString ''id'' = ''"id"''\<close>
  \<open>QuoteJSONString '''' = ''""''\<close>
  \<open>QuoteJSONString ''ck5r8d5b500003f5o2aif0v2b'' = ''"ck5r8d5b500003f5o2aif0v2b"''\<close>
  by (simp_all add: QuoteJSONString_def escape_char_def)


section \<open>The claims\<close>

text \<open>
  C1. Every call of \<open>useCart\<close> with an identifier either sends nothing or sends exactly
  one request: a POST to \<open>https://api.cartql.com\<close> with the header
  \<open>Content-Type: application/json\<close>, whose body is \<open>JSON.stringify\<close> of the object with
  \<open>query\<close> the text of \<open>getCartById\<close> and \<open>variables.id\<close> the identifier; the first call of
  an instance always sends it; and the body is the quoted query and the quoted identifier
  in the fixed frame \<open>{"query":...,"variables":{"id":...}}\<close>.
\<close>

theorem useCart_outbound_request:
  \<open>(outbox (snd (useCart ident w)) = outbox w \<or>
     outbox (snd (useCart ident w)) = outbox w @
       [\<lparr>url = ''https://api.cartql.com'', http_method = ''POST'',
         headers = [(''Content-Type'', ''application/json'')],
         body = JSON_stringify
                  (JObj [(''query'', JStr getCartById),
                         (''variables'', JObj [(''id'', JStr ident)])])\<rparr>]) \<and>
    outbox (snd (useCart ident init)) =
       [\<lparr>url = ''https://api.cartql.com'', http_method = ''POST'',
         headers = [(''Content-Type'', ''application/json'')],
         body = JSON_stringify
                  (JObj [(''query'', JStr getCartById),
                         (''variables'', JObj [(''id'', JStr ident)])])\<rparr>] \<and>
    JSON_stringify (JObj [(''query'', JStr getCartById), (''variables'', JObj [(''id'', JStr ident)])]) =
      ''{"query":'' @ QuoteJSONString getCartById @ '',"variables":{"id":'' @
      QuoteJSONString ident @ ''}}''\<close>
  by (simp add: useCart_def useEffect_def fetch_def init_def Let_def quoted_plain)

text \<open>
  C2, as stated: one outbound call for every distinct identifier the hook has seen. It
  fails when an identifier comes back: rendered with \<open>A\<close>, \<open>B\<close>, \<open>A\<close> the hook sends
  three requests for two distinct identifiers, the third for \<open>A\<close> again.
\<close>

theorem one_request_per_distinct_identifier_counterexample:
  "outbox (run [Render ''A'', Render ''B'', Render ''A'']) =
     [spec_request ''A'', spec_request ''B'', spec_request ''A''] \<and>
   length (outbox (run [Render ''A'', Render ''B'', Render ''A''])) \<noteq>
     length (remdups (rendered [Render ''A'', Render ''B'', Render ''A'']))"
  by (simp add: run_def init_def render_eq)

text \<open>
  C2, amended: over the lifetime of an instance the requests sent are, in order, one for
  the first identifier and one for every identifier that differs from the one of the
  render before, so an identifier seen earlier is fetched again when the hook returns to
  it. A render with the identifier of the render before sends nothing, a render with
  another identifier sends exactly one request, which carries the new identifier, and a
  settling request sends nothing.
\<close>

theorem one_request_per_identifier_change:
  "outbox (run evs) = map spec_request (remdups_adj (rendered evs)) \<and>
   outbox (run (evs @ [Render ident, Render ident])) = outbox (run (evs @ [Render ident])) \<and>
   (ident \<noteq> ident' \<longrightarrow>
      outbox (run (evs @ [Render ident, Render ident'])) =
        outbox (run (evs @ [Render ident])) @ [spec_request ident']) \<and>
   outbox (run (evs @ [Settle k out])) = outbox (run evs)"
  by (simp add: outbox_run rendered_append remdups_adj_snoc remdups_adj_append_two)

theorem one_request_per_identifier_change_witness:
  "''A'' \<noteq> ''B'' \<and>
   outbox (run ([Render ''A'', Settle 0 (Responded mock_totalItems)] @ [Render ''A'', Render ''B''])) =
     outbox (run ([Render ''A'', Settle 0 (Responded mock_totalItems)] @ [Render ''A''])) @ [spec_request ''B''] \<and>
   outbox (run ([Render ''A'', Settle 0 (Responded mock_totalItems)] @ [Render ''A''])) = [spec_request ''A'']"
  using one_request_per_identifier_change
    [of "[Render ''A'', Settle 0 (Responded mock_totalItems)]" "''A''" "''B''" 0 NetworkError]
  by (simp add: trace_simps mock_totalItems_def)

text \<open>
  C3, as stated: for every identifier the hook returns \<open>undefined\<close> until the fetch for
  that identifier completes. It fails for an identifier that follows another one: after
  the response for \<open>A\<close> has been stored and the hook is called with \<open>B\<close>, the request
  for \<open>B\<close> is in flight and the hook returns the cart of \<open>A\<close>.
\<close>

theorem undefined_until_fetch_completes_counterexample:
  "props_id (run [Render ''A'', Settle 0 (Responded mock_totalItems), Render ''B'']) = ''B'' \<and>
   outbox (run [Render ''A'', Settle 0 (Responded mock_totalItems), Render ''B'']) ! 1 =
     spec_request ''B'' \<and>
   pending (run [Render ''A'', Settle 0 (Responded mock_totalItems), Render ''B'']) = [1] \<and>
   returned (run [Render ''A'', Settle 0 (Responded mock_totalItems), Render ''B'']) =
     Json (JObj [(''totalItems'', JNum 10)]) \<and>
   returned (run [Render ''A'', Settle 0 (Responded mock_totalItems), Render ''B'']) \<noteq> Undefined"
  by (simp add: trace_simps mock_totalItems_def)

text \<open>
  C3, amended: an instance returns \<open>undefined\<close> as long as no response handler has
  completed (every request settled so far was rejected, was not JSON or threw). The
  returned value changes at no render, whatever the identifier, and at no request that
  ends in a rejection: after a change of identifier the cart fetched before stays the
  returned value until a later handler completes. Once a response whose body has a
  \<open>data\<close> value other than \<open>null\<close> is handled, the returned value is that body's
  \<open>data.cart\<close>: the cart, or \<open>null\<close>. With the mocked response
  \<open>{ cart: { totalItems: 10 } }\<close> the returned value is a cart whose \<open>totalItems\<close> is 10.
\<close>

theorem returned_cart_of_response:
  "((\<forall>k out. Settle k out \<in> set evs \<longrightarrow> isl (promise_chain out)) \<longrightarrow>
      returned (run evs) = Undefined) \<and>
   (k \<in> set (pending (run evs')) \<and> json_body res = Some j \<and>
    get_prop j ''data'' = Json d \<and> d \<noteq> JNull \<longrightarrow>
      returned (run (evs' @ [Settle k (Responded res)])) = get_prop d ''cart'') \<and>
   returned (run (evs'' @ [Render ident'])) = returned (run evs'') \<and>
   ((\<forall>k out. Settle k out \<in> set later \<longrightarrow> isl (promise_chain out)) \<longrightarrow>
      returned (run (evs'' @ later)) = returned (run evs'')) \<and>
   returned (run [Render ident, Settle 0 (Responded mock_totalItems)]) =
     Json (JObj [(''totalItems'', JNum 10)]) \<and>
   get_prop (JObj [(''totalItems'', JNum 10)]) ''totalItems'' = Json (JNum 10)"
proof (intro conjI impI)
  assume "\<forall>k out. Settle k out \<in> set evs \<longrightarrow> isl (promise_chain out)"
  then show "returned (run evs) = Undefined"
    by (simp add: returned_run cart_run_unset)
next
  assume a: "k \<in> set (pending (run evs')) \<and> json_body res = Some j \<and>
    get_prop j ''data'' = Json d \<and> d \<noteq> JNull"
  then have "promise_chain (Responded res) = Inr (get_prop d ''cart'')"
    by (simp add: promise_chain_data)
  with a show "returned (run (evs' @ [Settle k (Responded res)])) = get_prop d ''cart''"
    by (simp add: returned_run_Settle)
next
  show "returned (run (evs'' @ [Render ident'])) = returned (run evs'')"
    by (rule returned_run_quiet) simp
next
  assume "\<forall>k out. Settle k out \<in> set later \<longrightarrow> isl (promise_chain out)"
  then show "returned (run (evs'' @ later)) = returned (run evs'')"
    by (rule returned_run_quiet)
next
  show "returned (run [Render ident, Settle 0 (Responded mock_totalItems)]) =
     Json (JObj [(''totalItems'', JNum 10)])"
    by (simp add: trace_simps mock_totalItems_def)
next
  show "get_prop (JObj [(''totalItems'', JNum 10)]) ''totalItems'' = Json (JNum 10)"
    by simp
qed

theorem returned_cart_of_response_witness:
  "returned (run [Render ''A'', Settle 0 NetworkError, Render ''A'']) = Undefined \<and>
   0 \<in> set (pending (run [Render ''A''])) \<and>
   returned (run ([Render ''A''] @
      [Settle 0 (Responded \<lparr>status = 200,
         json_body = Some (JObj [(''data'', JObj [(''cart'', JNull)])])\<rparr>)])) = Json JNull \<and>
   returned (run [Render ''A'', Settle 0 (Responded mock_totalItems)]) =
     Json (JObj [(''totalItems'', JNum 10)]) \<and>
   returned (run ([Render ''A'', Settle 0 (Responded mock_totalItems)] @ [Render ''B''])) =
     Json (JObj [(''totalItems'', JNum 10)]) \<and>
   pending (run ([Render ''A'', Settle 0 (Responded mock_totalItems)] @ [Render ''B''])) = [1] \<and>
   returned (run ([Render ''A'', Settle 0 (Responded mock_totalItems)] @
      [Render ''B'', Settle 1 NetworkError, Render ''B''])) =
     Json (JObj [(''totalItems'', JNum 10)])"
  using returned_cart_of_response
    [where evs = "[Render ''A'', Settle 0 NetworkError, Render ''A'']" and k = 0
       and evs' = "[Render ''A'']"
       and res = "\<lparr>status = 200, json_body = Some (JObj [(''data'', JObj [(''cart'', JNull)])])\<rparr>"
       and j = "JObj [(''data'', JObj [(''cart'', JNull)])]" and d = "JObj [(''cart'', JNull)]"
       and evs'' = "[Render ''A'', Settle 0 (Responded mock_totalItems)]" and ident' = "''B''"
       and later = "[Render ''B'', Settle 1 NetworkError, Render ''B'']" and ident = "''A''"]
  by (simp add: trace_simps mock_totalItems_def)

text \<open>
  C4, as stated: on a connection error or a non-2xx status the state never updates. It
  fails for the status: the handlers never read it, and a response with status 500 whose
  body carries \<open>data.cart\<close> updates the returned value like any other.
\<close>

theorem state_unset_on_failure_counterexample:
  "returned (run [Render ''A'',
      Settle 0 (Responded \<lparr>status = 500,
        json_body = Some (JObj [(''data'', JObj [(''cart'', JObj [(''totalItems'', JNum 10)])])])\<rparr>)])
     = Json (JObj [(''totalItems'', JNum 10)]) \<and>
   returned (run [Render ''A'',
      Settle 0 (Responded \<lparr>status = 500,
        json_body = Some (JObj [(''data'', JObj [(''cart'', JObj [(''totalItems'', JNum 10)])])])\<rparr>)])
     \<noteq> returned (run [Render ''A''])"
  by (simp add: trace_simps)

text \<open>
  C4, amended: when \<open>fetch\<close> rejects (a connection error), or when the body of the
  response is not JSON, the state does not change: the cart and the returned value stay
  as they were, and the rejection reaches no handler and not the caller; it is added to
  the unhandled rejections and stays there. Nothing is sent again: the requests of a
  lifetime are those of the same lifetime without the settling of the request, and the
  next render with the same identifier sends nothing. The status of a response is never
  read: a response is handled exactly like the response with the same body and any other
  status.
\<close>

theorem failure_leaves_state:
  "cart (step w (Settle k NetworkError)) = cart w \<and>
   returned (step w (Settle k NetworkError)) = returned w \<and>
   outbox (step w (Settle k NetworkError)) = outbox w \<and>
   (k \<in> set (pending w) \<longrightarrow>
      unhandled (step w (Settle k NetworkError)) = unhandled w @ [FetchRejected]) \<and>
   (json_body res = None \<longrightarrow>
      cart (step w (Settle k (Responded res))) = cart w \<and>
      returned (step w (Settle k (Responded res))) = returned w \<and>
      outbox (step w (Settle k (Responded res))) = outbox w) \<and>
   (k \<in> set (pending w) \<and> json_body res = None \<longrightarrow>
      unhandled (step w (Settle k (Responded res))) = unhandled w @ [JsonSyntaxError]) \<and>
   step w (Settle k (Responded (res'\<lparr>status := s\<rparr>))) = step w (Settle k (Responded res')) \<and>
   outbox (run (evs @ Settle k out # evs')) = outbox (run (evs @ evs')) \<and>
   (rendered evs \<noteq> [] \<longrightarrow>
      outbox (run (evs @ [Settle k out, Render (last (rendered evs))])) = outbox (run evs)) \<and>
   (\<exists>ys. unhandled (run (evs @ evs')) = unhandled (run evs) @ ys)"
proof (intro conjI)
  show "outbox (run (evs @ Settle k out # evs')) = outbox (run (evs @ evs'))"
    by (rule outbox_run_Settle_mid)
next
  show "rendered evs \<noteq> [] \<longrightarrow>
      outbox (run (evs @ [Settle k out, Render (last (rendered evs))])) = outbox (run evs)"
    by (simp add: outbox_run rendered_append remdups_adj_snoc)
next
  show "\<exists>ys. unhandled (run (evs @ evs')) = unhandled (run evs) @ ys"
    by (rule unhandled_run_append)
qed (simp_all add: settle_def reject_def promise_chain_def then_json_def)

theorem failure_leaves_state_witness:
  "0 \<in> set (pending (run [Render ''A''])) \<and>
   returned (step (run [Render ''A'']) (Settle 0 NetworkError)) = Undefined \<and>
   unhandled (step (run [Render ''A'']) (Settle 0 NetworkError)) = [FetchRejected] \<and>
   json_body \<lparr>status = 502, json_body = None\<rparr> = None \<and>
   returned (step (run [Render ''A'']) (Settle 0 (Responded \<lparr>status = 502, json_body = None\<rparr>)))
     = Undefined \<and>
   unhandled (step (run [Render ''A'']) (Settle 0 (Responded \<lparr>status = 502, json_body = None\<rparr>)))
     = [JsonSyntaxError] \<and>
   rendered [Render ''A''] = [''A''] \<and>
   outbox (run ([Render ''A''] @ [Settle 0 NetworkError, Render ''A''])) = [spec_request ''A''] \<and>
   unhandled (run ([Render ''A'', Settle 0 NetworkError] @ [Render ''A'', Render ''B'']))
     = [FetchRejected]"
  using failure_leaves_state
    [where w = "run [Render ''A'']" and k = 0
       and res = "\<lparr>status = 502, json_body = None\<rparr>"
       and res' = "\<lparr>status = 502, json_body = None\<rparr>" and s = 200
       and evs = "[Render ''A'']" and out = NetworkError and evs' = "[]"]
  by (simp add: trace_simps)

text \<open>
  C5, as stated: after any response whose body lacks \<open>data.cart\<close> the returned cart is
  \<open>undefined\<close>. It fails when \<open>data\<close> itself is missing and a cart is stored: the
  handler throws, and the cart fetched before stays what the hook returns.
\<close>

theorem missing_cart_is_undefined_counterexample:
  "get_prop (JObj []) ''data'' = Undefined \<and>
   returned (run [Render ''A'', Settle 0 (Responded mock_totalItems), Render ''B'',
                  Settle 1 (Responded \<lparr>status = 200, json_body = Some (JObj [])\<rparr>)])
     = Json (JObj [(''totalItems'', JNum 10)]) \<and>
   returned (run [Render ''A'', Settle 0 (Responded mock_totalItems), Render ''B'',
                  Settle 1 (Responded \<lparr>status = 200, json_body = Some (JObj [])\<rparr>)])
     \<noteq> Undefined"
  by (simp add: trace_simps mock_totalItems_def)

text \<open>
  C5, amended: after a response whose body has a \<open>data\<close> value other than \<open>null\<close>
  that lacks \<open>cart\<close>, the returned cart is \<open>undefined\<close>, whatever was stored before;
  after a response whose body has no \<open>data\<close>, or \<open>null\<close> for it, the returned cart is
  what it was before.
\<close>

theorem data_without_cart_is_undefined:
  "k \<in> set (pending (run evs)) \<Longrightarrow> json_body res = Some j \<Longrightarrow>
   (get_prop j ''data'' = Json d \<and> d \<noteq> JNull \<and> get_prop d ''cart'' = Undefined \<longrightarrow>
      returned (run (evs @ [Settle k (Responded res)])) = Undefined) \<and>
   (get_prop j ''data'' = Undefined \<or> get_prop j ''data'' = Json JNull \<longrightarrow>
      returned (run (evs @ [Settle k (Responded res)])) = returned (run evs))"
proof (intro conjI impI)
  assume p: "k \<in> set (pending (run evs))" and b: "json_body res = Some j"
    and d: "get_prop j ''data'' = Json d \<and> d \<noteq> JNull \<and> get_prop d ''cart'' = Undefined"
  then have "promise_chain (Responded res) = Inr Undefined"
    using promise_chain_data [of res j d] by simp
  then show "returned (run (evs @ [Settle k (Responded res)])) = Undefined"
    using p by (rule returned_run_Settle [rotated])
next
  assume b: "json_body res = Some j"
    and d: "get_prop j ''data'' = Undefined \<or> get_prop j ''data'' = Json JNull"
  then have "promise_chain (Responded res) = Inl TypeError"
    using promise_chain_no_data [of res j] promise_chain_null_data [of res j] by blast
  then show "returned (run (evs @ [Settle k (Responded res)])) = returned (run evs)"
    by (rule returned_run_Settle_rejected)
qed

theorem data_without_cart_is_undefined_witness:
  "pending (run [Render ''A'', Settle 0 (Responded mock_totalItems), Render ''B'']) = [1] \<and>
   returned (run [Render ''A'', Settle 0 (Responded mock_totalItems), Render ''B'']) =
     Json (JObj [(''totalItems'', JNum 10)]) \<and>
   get_prop (JObj [(''data'', JObj [])]) ''data'' = Json (JObj []) \<and>
   get_prop (JObj []) ''cart'' = Undefined \<and>
   returned (run ([Render ''A'', Settle 0 (Responded mock_totalItems), Render ''B''] @
                  [Settle 1 (Responded \<lparr>status = 200,
                     json_body = Some (JObj [(''data'', JObj [])])\<rparr>)])) = Undefined \<and>
   get_prop (JObj [(''data'', JNull)]) ''data'' = Json JNull \<and>
   returned (run ([Render ''A'', Settle 0 (Responded mock_totalItems), Render ''B''] @
                  [Settle 1 (Responded \<lparr>status = 200,
                     json_body = Some (JObj [(''data'', JNull)])\<rparr>)])) =
     Json (JObj [(''totalItems'', JNum 10)])"
  using data_without_cart_is_undefined
    [of 1 "[Render ''A'', Settle 0 (Responded mock_totalItems), Render ''B'']"
        "\<lparr>status = 200, json_body = Some (JObj [(''data'', JObj [])])\<rparr>"
        "JObj [(''data'', JObj [])]" "JObj []"]
    data_without_cart_is_undefined
    [of 1 "[Render ''A'', Settle 0 (Responded mock_totalItems), Render ''B'']"
        "\<lparr>status = 200, json_body = Some (JObj [(''data'', JNull)])\<rparr>"
        "JObj [(''data'', JNull)]" "JNull"]
  by (simp add: trace_simps mock_totalItems_def)

text \<open>
  C6, as stated: the value exposed is absent or a fully-formed cart. It fails on the
  response of the repository's own test, \<open>{ cart: { totalItems: 10 } }\<close>: the hook
  returns that object, which has neither a subtotal nor line items.
\<close>

theorem absent_or_fully_formed_counterexample:
  "returned (run [Render ''ck5r8d5b500003f5o2aif0v2b'', Settle 0 (Responded mock_totalItems)]) =
     Json (JObj [(''totalItems'', JNum 10)]) \<and>
   returned (run [Render ''ck5r8d5b500003f5o2aif0v2b'', Settle 0 (Responded mock_totalItems)]) \<noteq>
     Undefined \<and>
   get_prop (JObj [(''totalItems'', JNum 10)]) ''subTotal'' = Undefined \<and>
   get_prop (JObj [(''totalItems'', JNum 10)]) ''items'' = Undefined \<and>
   \<not> cart_shape (JObj [(''totalItems'', JNum 10)])"
  by (simp add: trace_simps mock_totalItems_def cart_shape_def is_string_def)

text \<open>
  C6, amended: at every point of an instance's lifetime the value exposed is
  \<open>undefined\<close> or the very value some handled response had at \<open>data.cart\<close>; nothing
  checks its shape, and any JSON value a response has there is exposed as it is.
\<close>

theorem returned_is_unvalidated_response_field:
  "(returned (run evs) = Undefined \<or>
    (\<exists>k out. Settle k out \<in> set evs \<and> promise_chain out = Inr (returned (run evs)))) \<and>
   returned (run [Render ident,
      Settle 0 (Responded \<lparr>status = s,
        json_body = Some (JObj [(''data'', JObj [(''cart'', c)])])\<rparr>)]) = Json c"
proof
  show "returned (run evs) = Undefined \<or>
    (\<exists>k out. Settle k out \<in> set evs \<and> promise_chain out = Inr (returned (run evs)))"
    using cart_run_origin [of evs] by (simp add: returned_run)
next
  have p: "0 \<in> set (pending (run [Render ident]))"
    by (simp add: run_def init_def render_eq)
  have "promise_chain (Responded \<lparr>status = s,
        json_body = Some (JObj [(''data'', JObj [(''cart'', c)])])\<rparr>) = Inr (Json c)"
    by (simp add: promise_chain_def then_json_def then_setCart_def)
  then show "returned (run [Render ident,
      Settle 0 (Responded \<lparr>status = s,
        json_body = Some (JObj [(''data'', JObj [(''cart'', c)])])\<rparr>)]) = Json c"
    using returned_run_Settle [OF p] by simp
qed

text \<open>
  C7. While requests are in flight the returned value changes at no render and at no
  request that ends in a rejection; with one request in flight it changes at nothing but
  the completed handler of that request. A request in flight stays in flight across
  renders with any identifier and across the settling of other requests (nothing is
  cancelled); and when the handler of any request in flight completes, the returned
  value is the cart of that response, whichever request was sent last.
\<close>

theorem last_response_wins:
  "returned (run (evs @ [Render ident])) = returned (run evs) \<and>
   (isl (promise_chain out') \<longrightarrow>
      returned (run (evs @ [Settle k' out'])) = returned (run evs)) \<and>
   (pending (run evs) = [k] \<and> k' \<noteq> k \<longrightarrow>
      returned (run (evs @ [Settle k' out''])) = returned (run evs)) \<and>
   (k \<in> set (pending (run evs)) \<longrightarrow> k \<in> set (pending (run (evs @ [Render ident])))) \<and>
   (k \<in> set (pending (run evs)) \<and> k' \<noteq> k \<longrightarrow>
      k \<in> set (pending (run (evs @ [Settle k' out'])))) \<and>
   (k \<in> set (pending (run evs)) \<and> promise_chain out = Inr v \<longrightarrow>
      returned (run (evs @ [Settle k out])) = v)"
proof (intro conjI impI)
  show "returned (run (evs @ [Render ident])) = returned (run evs)"
    by (simp add: run_snoc step_Render_fields returned_run del: step.simps)
next
  assume "isl (promise_chain out')"
  then obtain e where "promise_chain out' = Inl e" by (cases "promise_chain out'") simp_all
  then show "returned (run (evs @ [Settle k' out'])) = returned (run evs)"
    by (simp add: run_snoc step_Settle_rejected del: step.simps)
next
  assume "pending (run evs) = [k] \<and> k' \<noteq> k"
  then show "returned (run (evs @ [Settle k' out''])) = returned (run evs)"
    by (simp add: run_snoc)
next
  assume "k \<in> set (pending (run evs))"
  then show "k \<in> set (pending (run (evs @ [Render ident])))"
    using step_Render_fields(3) [of "run evs" ident] by (auto simp: run_snoc simp del: step.simps)
next
  assume a: "k \<in> set (pending (run evs)) \<and> k' \<noteq> k"
  show "k \<in> set (pending (run (evs @ [Settle k' out'])))"
  proof (cases "k' \<in> set (pending (run evs))")
    case True
    with a show ?thesis by (simp add: run_Settle_eq split: sum.splits)
  next
    case False
    with a show ?thesis by (simp add: run_snoc)
  qed
next
  assume "k \<in> set (pending (run evs)) \<and> promise_chain out = Inr v"
  then show "returned (run (evs @ [Settle k out])) = v"
    by (simp add: returned_run_Settle)
qed

theorem last_response_wins_witness:
  "pending (run [Render ''A'', Render ''B'']) = [0, 1] \<and>
   outbox (run [Render ''A'', Render ''B'']) = [spec_request ''A'', spec_request ''B''] \<and>
   returned (run ([Render ''A'', Render ''B''] @
      [Settle 1 (Responded \<lparr>status = 200,
         json_body = Some (JObj [(''data'', JObj [(''cart'', JObj [(''totalItems'', JNum 2)])])])\<rparr>)]))
     = Json (JObj [(''totalItems'', JNum 2)]) \<and>
   pending (run [Render ''A'', Render ''B'',
      Settle 1 (Responded \<lparr>status = 200,
         json_body = Some (JObj [(''data'', JObj [(''cart'', JObj [(''totalItems'', JNum 2)])])])\<rparr>)]) = [0] \<and>
   props_id (run ([Render ''A'', Render ''B'',
      Settle 1 (Responded \<lparr>status = 200,
         json_body = Some (JObj [(''data'', JObj [(''cart'', JObj [(''totalItems'', JNum 2)])])])\<rparr>)] @
      [Settle 0 (Responded \<lparr>status = 200,
         json_body = Some (JObj [(''data'', JObj [(''cart'', JObj [(''totalItems'', JNum 1)])])])\<rparr>)]))
     = ''B'' \<and>
   returned (run ([Render ''A'', Render ''B'',
      Settle 1 (Responded \<lparr>status = 200,
         json_body = Some (JObj [(''data'', JObj [(''cart'', JObj [(''totalItems'', JNum 2)])])])\<rparr>)] @
      [Settle 0 (Responded \<lparr>status = 200,
         json_body = Some (JObj [(''data'', JObj [(''cart'', JObj [(''totalItems'', JNum 1)])])])\<rparr>)]))
     = Json (JObj [(''totalItems'', JNum 1)])"
  using last_response_wins
    [where evs = "[Render ''A'', Render ''B'',
        Settle 1 (Responded \<lparr>status = 200,
          json_body = Some (JObj [(''data'', JObj [(''cart'', JObj [(''totalItems'', JNum 2)])])])\<rparr>)]"
       and k = 0 and k' = 1 and out' = NetworkError and out'' = NetworkError and ident = "''B''"
       and out = "Responded \<lparr>status = 200,
          json_body = Some (JObj [(''data'', JObj [(''cart'', JObj [(''totalItems'', JNum 1)])])])\<rparr>"
       and v = "Json (JObj [(''totalItems'', JNum 1)])"]
  by (simp add: trace_simps)

text \<open>
  C8. If the parsed body has no \<open>data\<close>, the handler throws a TypeError that nothing
  catches, and the state of the hook is exactly as it was, but for the request no longer
  in flight and the unhandled rejection: the cart stored and the value returned do not
  change, so a cart fetched before stays.
\<close>

theorem missing_data_throws:
  "k \<in> set (pending w) \<Longrightarrow> json_body res = Some j \<Longrightarrow> get_prop j ''data'' = Undefined \<Longrightarrow>
   step w (Settle k (Responded res)) =
     w\<lparr>pending := removeAll k (pending w), unhandled := unhandled w @ [TypeError]\<rparr> \<and>
   cart (step w (Settle k (Responded res))) = cart w \<and>
   returned (step w (Settle k (Responded res))) = returned w"
  by (simp add: settle_def reject_def promise_chain_no_data)

theorem missing_data_throws_witness:
  "1 \<in> set (pending (run [Render ''A'', Settle 0 (Responded mock_totalItems), Render ''B''])) \<and>
   get_prop (JObj [(''errors'', JArr [])]) ''data'' = Undefined \<and>
   unhandled (step (run [Render ''A'', Settle 0 (Responded mock_totalItems), Render ''B''])
      (Settle 1 (Responded \<lparr>status = 200, json_body = Some (JObj [(''errors'', JArr [])])\<rparr>)))
     = [TypeError] \<and>
   returned (step (run [Render ''A'', Settle 0 (Responded mock_totalItems), Render ''B''])
      (Settle 1 (Responded \<lparr>status = 200, json_body = Some (JObj [(''errors'', JArr [])])\<rparr>)))
     = Json (JObj [(''totalItems'', JNum 10)])"
  using missing_data_throws
    [where w = "run [Render ''A'', Settle 0 (Responded mock_totalItems), Render ''B'']"
       and k = 1
       and res = "\<lparr>status = 200, json_body = Some (JObj [(''errors'', JArr [])])\<rparr>"
       and j = "JObj [(''errors'', JArr [])]"]
  by (simp add: trace_simps mock_totalItems_def)

text \<open>
  C9. The hook validates nothing: called first with any identifier it sends exactly one
  request whose \<open>variables.id\<close> is that identifier, rejects nothing and reports no
  error; for the empty string the body ends in \<open>"variables":{"id":""}}\<close>; and two
  identifiers give the same request only when they are equal.
\<close>

theorem no_identifier_validation:
  \<open>outbox (run [Render ident]) =
      [\<lparr>url = ''https://api.cartql.com'', http_method = ''POST'',
        headers = [(''Content-Type'', ''application/json'')],
        body = JSON_stringify
                 (JObj [(''query'', JStr getCartById),
                        (''variables'', JObj [(''id'', JStr ident)])])\<rparr>] \<and>
    pending (run [Render ident]) = [0] \<and>
    unhandled (run [Render ident]) = [] \<and>
    map body (outbox (run [Render ''''])) =
      [''{"query":'' @ QuoteJSONString getCartById @ '',"variables":{"id":""}}''] \<and>
    (outbox (run [Render a]) = outbox (run [Render b]) \<longleftrightarrow> a = b)\<close>
proof (intro conjI)
  show "outbox (run [Render ident]) =
      [\<lparr>url = ''https://api.cartql.com'', http_method = ''POST'',
        headers = [(''Content-Type'', ''application/json'')],
        body = JSON_stringify
                 (JObj [(''query'', JStr getCartById),
                        (''variables'', JObj [(''id'', JStr ident)])])\<rparr>]"
    by (simp add: run_def init_def render_eq) (simp add: spec_request_def)
next
  show "pending (run [Render ident]) = [0]"
    by (simp add: run_def init_def render_eq)
next
  show "unhandled (run [Render ident]) = []"
    by (simp add: run_def init_def render_eq)
next
  show \<open>map body (outbox (run [Render ''''])) =
      [''{"query":'' @ QuoteJSONString getCartById @ '',"variables":{"id":""}}'']\<close>
    by (simp add: outbox_run body_spec_request quoted_plain)
next
  show "outbox (run [Render a]) = outbox (run [Render b]) \<longleftrightarrow> a = b"
    by (simp add: outbox_run)
qed




end
